theory Spec2Isabelle
  imports Main
begin

section \<open>Go values\<close>

text \<open>
  A Go \<open>[]byte\<close> and a Go \<open>string\<close> are both byte sequences; \<open>char\<close> is a byte, so both
  are \<open>string\<close> here and the conversions \<open>string(b)\<close> and \<open>[]byte(s)\<close> are the identity.
  An \<open>error\<close> value is represented by the text its \<open>Error()\<close> method returns.
\<close>

type_synonym bytes = string
type_synonym error = string

text \<open>A call either returns or panics (a failed type assertion such as \<open>x.(int)\<close>).\<close>

datatype 'a exec = Panic string | Return 'a

subsection \<open>Formatting verbs of \<open>fmt\<close>\<close>

fun fmt_nat :: "nat \<Rightarrow> string" where
  "fmt_nat n = (if n < 10 then [''0123456789'' ! n]
                else fmt_nat (n div 10) @ [''0123456789'' ! (n mod 10)])"

declare fmt_nat.simps [simp del]

text \<open>\<open>%d\<close> of an \<open>int\<close>.\<close>

definition fmt_d :: "int \<Rightarrow> string" where
  "fmt_d i = (if i < 0 then CHR ''-'' # fmt_nat (nat (- i)) else fmt_nat (nat i))"

text \<open>Reading a decimal numeral back: what a reader of a message takes the digits for.\<close>

definition read_nat :: "string \<Rightarrow> nat" where
  "read_nat s = foldl (\<lambda>a c. 10 * a + (of_char c - 48)) 0 s"

definition read_int :: "string \<Rightarrow> int" where
  "read_int s =
     (case s of
        [] \<Rightarrow> 0
      | c # cs \<Rightarrow> if c = CHR ''-'' then - int (read_nat cs) else int (read_nat s))"

fun join :: "string \<Rightarrow> string list \<Rightarrow> string" where
  "join sep [] = []"
| "join sep [x] = x"
| "join sep (x # y # ys) = x @ sep @ join sep (y # ys)"

text \<open>\<open>%v\<close> of a \<open>[]string\<close>: the elements separated by spaces, in brackets.\<close>

definition fmt_v_strings :: "string list \<Rightarrow> string" where
  "fmt_v_strings xs = ''['' @ join '' '' xs @ '']''"

subsection \<open>Keys\<close>

text \<open>The curves of \<open>crypto/elliptic\<close> that the generators name.\<close>

datatype Curve = elliptic_P224 | elliptic_P256 | elliptic_P384 | elliptic_P521

record rsa_PublicKey =
  rsa_N :: int
  rsa_E :: int

record rsa_PrivateKey =
  rsa_PublicKey :: rsa_PublicKey
  rsa_D :: int
  rsa_Primes :: "int list"

record ecdsa_PublicKey =
  ecdsa_Curve :: Curve
  ecdsa_X :: int
  ecdsa_Y :: int

record ecdsa_PrivateKey =
  ecdsa_PublicKey :: ecdsa_PublicKey
  ecdsa_D :: int

text \<open>
  \<open>crypto.PrivateKey\<close> and \<open>crypto.PublicKey\<close> are the empty interface: a value of any
  dynamic type. The constructors are the dynamic types the code distinguishes, value and
  pointer forms apart; pointers are non-nil. \<open>Other_PrivateKey\<close> stands for every other
  dynamic type: it carries the name \<open>%T\<close> prints and, when that type implements
  \<open>crypto.Signer\<close>, what its \<open>Public()\<close> returns.
\<close>

datatype PublicKey =
    Ptr_rsa_PublicKey rsa_PublicKey
  | Ptr_ecdsa_PublicKey ecdsa_PublicKey
  | ed25519_PublicKey bytes
  | Other_PublicKey string

datatype PrivateKey =
    Val_rsa_PrivateKey rsa_PrivateKey
  | Ptr_rsa_PrivateKey rsa_PrivateKey
  | Val_ecdsa_PrivateKey ecdsa_PrivateKey
  | Ptr_ecdsa_PrivateKey ecdsa_PrivateKey
  | Val_ed25519_PrivateKey bytes
  | Ptr_ed25519_PrivateKey bytes
  | Other_PrivateKey string "PublicKey option"

text \<open>\<open>%T\<close> of a private key: the name of its dynamic type.\<close>

fun fmt_T :: "PrivateKey \<Rightarrow> string" where
  "fmt_T (Val_rsa_PrivateKey _) = ''rsa.PrivateKey''"
| "fmt_T (Ptr_rsa_PrivateKey _) = ''*rsa.PrivateKey''"
| "fmt_T (Val_ecdsa_PrivateKey _) = ''ecdsa.PrivateKey''"
| "fmt_T (Ptr_ecdsa_PrivateKey _) = ''*ecdsa.PrivateKey''"
| "fmt_T (Val_ed25519_PrivateKey _) = ''ed25519.PrivateKey''"
| "fmt_T (Ptr_ed25519_PrivateKey _) = ''*ed25519.PrivateKey''"
| "fmt_T (Other_PrivateKey name _) = name"

subsection \<open>PEM blocks and resource data\<close>

record pem_Block =
  Type :: string
  Headers :: "(string \<times> string) list"
  Bytes :: bytes

text \<open>
  \<open>*schema.ResourceData\<close>: the identifier and the attribute values of a resource, with the
  keys its schema declares. \<open>d.Get\<close> returns the stored value (\<open>nil\<close> when there is none);
  \<open>d.SetId\<close> always succeeds; \<open>d.Set\<close> stores a value under a declared key and
  returns an error, storing nothing, for a key the schema does not declare. The data is
  mutated in place in Go, so every operation returns the data it leaves behind.
\<close>

datatype Value = VString string | VInt int | VBool bool

record ResourceData =
  Schema :: "string list"
  Attrs :: "string \<rightharpoonup> Value"
  Id :: string

definition Get :: "ResourceData \<Rightarrow> string \<Rightarrow> Value option" where
  "Get d key = Attrs d key"

definition SetId :: "ResourceData \<Rightarrow> string \<Rightarrow> ResourceData" where
  "SetId d v = d\<lparr>Id := v\<rparr>"

definition Set :: "ResourceData \<Rightarrow> string \<Rightarrow> Value \<Rightarrow> ResourceData \<times> error option" where
  "Set d key v =
     (if key \<in> set (Schema d) then (d\<lparr>Attrs := (Attrs d)(key \<mapsto> v)\<rparr>, None)
      else (d, Some (''Invalid address to set: []string{'' @ [CHR 0x22] @ key
                     @ [CHR 0x22] @ ''}'')))"

text \<open>\<open>diag.Diagnostics\<close>: the summaries of the error diagnostics; \<open>nil\<close> is the empty list.\<close>

type_synonym Diagnostics = "string list"

definition diag_Errorf :: "string \<Rightarrow> Diagnostics" where
  "diag_Errorf msg = [msg]"

section \<open>What the code takes from outside this file\<close>

text \<open>
  The Go standard library, \<open>golang.org/x/crypto/ssh\<close> and two helpers of the provider
  package that are declared in other files (\<open>hashForState\<close>, \<open>PEMBlockToPEMPreamble\<close>) are
  parameters of the model: a record of functions, one field for each function the code
  calls. \<open>rand.Reader\<close> is the entropy the generating functions are given. A library
  function with results \<open>(T, error)\<close> returns \<open>Inl\<close> the error or \<open>Inr\<close> the value. An
  \<open>ssh.PublicKey\<close> is represented by its wire format.
\<close>

type_synonym entropy = bytes
type_synonym ssh_PublicKey = bytes
type_synonym Algorithm = string
type_synonym ECDSACurve = string
type_synonym PEMPreamble = string

record env =
  rsa_GenerateKey :: "entropy \<Rightarrow> int \<Rightarrow> error + rsa_PrivateKey"
  ecdsa_GenerateKey :: "Curve \<Rightarrow> entropy \<Rightarrow> error + ecdsa_PrivateKey"
  ed25519_GenerateKey :: "entropy \<Rightarrow> error + (bytes \<times> bytes)"
  ed25519_Public :: "bytes \<Rightarrow> bytes"
  x509_ParsePKCS1PrivateKey :: "bytes \<Rightarrow> error + rsa_PrivateKey"
  x509_ParseECPrivateKey :: "bytes \<Rightarrow> error + ecdsa_PrivateKey"
  x509_ParsePKCS8PrivateKey :: "bytes \<Rightarrow> error + PrivateKey"
  x509_MarshalPKCS1PrivateKey :: "rsa_PrivateKey \<Rightarrow> bytes"
  x509_MarshalECPrivateKey :: "ecdsa_PrivateKey \<Rightarrow> error + bytes"
  x509_MarshalPKCS8PrivateKey :: "PrivateKey \<Rightarrow> error + bytes"
  x509_MarshalPKIXPublicKey :: "PublicKey \<Rightarrow> error + bytes"
  pem_Decode :: "bytes \<Rightarrow> pem_Block option \<times> bytes"
  pem_EncodeToMemory :: "pem_Block \<Rightarrow> bytes"
  ssh_ParseRawPrivateKey :: "bytes \<Rightarrow> error + PrivateKey"
  ssh_NewPublicKey :: "PublicKey \<Rightarrow> error + ssh_PublicKey"
  ssh_MarshalAuthorizedKey :: "ssh_PublicKey \<Rightarrow> bytes"
  ssh_FingerprintLegacyMD5 :: "ssh_PublicKey \<Rightarrow> string"
  ssh_FingerprintSHA256 :: "ssh_PublicKey \<Rightarrow> string"
  hashForState :: "string \<Rightarrow> string"
  PEMBlockToPEMPreamble :: "pem_Block \<Rightarrow> error + PEMPreamble"

text \<open>
  Modelled from the spec: the constants of the string types \<open>Algorithm\<close>, \<open>ECDSACurve\<close> and
  \<open>PEMPreamble\<close> and the list \<open>SupportedECDSACurves()\<close>, whose declarations are in a file
  that is not part of the sources at hand. The spec gives the algorithm tags
  \<open>{RSA, ECDSA, ED25519}\<close>, the curve tags \<open>{P224, P256, P384, P521}\<close> and the labels
  "RSA PRIVATE KEY", "EC PRIVATE KEY", "PRIVATE KEY" (PKCS8) and "PUBLIC KEY".
\<close>

definition RSA :: Algorithm where "RSA = ''RSA''"
definition ECDSA :: Algorithm where "ECDSA = ''ECDSA''"
definition ED25519 :: Algorithm where "ED25519 = ''ED25519''"

definition P224 :: ECDSACurve where "P224 = ''P224''"
definition P256 :: ECDSACurve where "P256 = ''P256''"
definition P384 :: ECDSACurve where "P384 = ''P384''"
definition P521 :: ECDSACurve where "P521 = ''P521''"

definition SupportedECDSACurves :: "string list" where
  "SupportedECDSACurves = [P224, P256, P384, P521]"

definition PreamblePrivateKeyRSA :: PEMPreamble where
  "PreamblePrivateKeyRSA = ''RSA PRIVATE KEY''"
definition PreamblePrivateKeyEC :: PEMPreamble where
  "PreamblePrivateKeyEC = ''EC PRIVATE KEY''"
definition PreamblePrivateKeyPKCS8 :: PEMPreamble where
  "PreamblePrivateKeyPKCS8 = ''PRIVATE KEY''"
definition PreamblePublicKey :: PEMPreamble where
  "PreamblePublicKey = ''PUBLIC KEY''"

section \<open>common\_key.go\<close>

text \<open>
  A Go function with results \<open>(T, error)\<close> that returns either \<open>(nil, err)\<close> or
  \<open>(v, nil)\<close> returns \<open>Inl err\<close> or \<open>Inr v\<close> here; \<open>parsePrivateKeyPEM\<close>, whose results are
  \<open>(nil, "", err)\<close> or \<open>(prvKey, algorithm, nil)\<close>, returns \<open>Inl err\<close> or
  \<open>Inr (prvKey, algorithm)\<close>.
\<close>

type_synonym keyGenerator = "ResourceData \<Rightarrow> entropy \<Rightarrow> (error + PrivateKey) exec"

type_synonym keyParser = "bytes \<Rightarrow> error + PrivateKey"

subsection \<open>keyGenerators\<close>

definition generateRSA :: "env \<Rightarrow> keyGenerator" where
  "generateRSA lib d rnd =
     (case Get d ''rsa_bits'' of
        Some (VInt rsaBits) \<Rightarrow>
          Return (map_sum id Ptr_rsa_PrivateKey (rsa_GenerateKey lib rnd rsaBits))
      | _ \<Rightarrow> Panic ''interface conversion: interface {} is not int'')"

definition generateECDSA :: "env \<Rightarrow> keyGenerator" where
  "generateECDSA lib d rnd =
     (case Get d ''ecdsa_curve'' of
        Some (VString curve) \<Rightarrow>
          Return
           (if curve = P224 then
              map_sum id Ptr_ecdsa_PrivateKey (ecdsa_GenerateKey lib elliptic_P224 rnd)
            else if curve = P256 then
              map_sum id Ptr_ecdsa_PrivateKey (ecdsa_GenerateKey lib elliptic_P256 rnd)
            else if curve = P384 then
              map_sum id Ptr_ecdsa_PrivateKey (ecdsa_GenerateKey lib elliptic_P384 rnd)
            else if curve = P521 then
              map_sum id Ptr_ecdsa_PrivateKey (ecdsa_GenerateKey lib elliptic_P521 rnd)
            else Inl (''invalid ECDSA curve; supported values are: ''
                      @ fmt_v_strings SupportedECDSACurves))
      | _ \<Rightarrow> Panic ''interface conversion: interface {} is not string'')"

definition generateED25519 :: "env \<Rightarrow> keyGenerator" where
  "generateED25519 lib d rnd =
     Return (case ed25519_GenerateKey lib rnd of
               Inl err \<Rightarrow> Inl (''failed to generate ED25519 key: '' @ err)
             | Inr (pub, key) \<Rightarrow> Inr (Val_ed25519_PrivateKey key))"

definition keyGenerators :: "env \<Rightarrow> Algorithm \<rightharpoonup> keyGenerator" where
  "keyGenerators lib =
     [RSA \<mapsto> generateRSA lib, ECDSA \<mapsto> generateECDSA lib, ED25519 \<mapsto> generateED25519 lib]"

subsection \<open>keyParsers\<close>

definition parseRSA :: "env \<Rightarrow> keyParser" where
  "parseRSA lib der = map_sum id Ptr_rsa_PrivateKey (x509_ParsePKCS1PrivateKey lib der)"

definition parseEC :: "env \<Rightarrow> keyParser" where
  "parseEC lib der = map_sum id Ptr_ecdsa_PrivateKey (x509_ParseECPrivateKey lib der)"

definition parsePKCS8 :: "env \<Rightarrow> keyParser" where
  "parsePKCS8 lib der = x509_ParsePKCS8PrivateKey lib der"

definition keyParsers :: "env \<Rightarrow> PEMPreamble \<rightharpoonup> keyParser" where
  "keyParsers lib =
     [PreamblePrivateKeyRSA \<mapsto> parseRSA lib,
      PreamblePrivateKeyEC \<mapsto> parseEC lib,
      PreamblePrivateKeyPKCS8 \<mapsto> parsePKCS8 lib]"

subsection \<open>privateKeyToPublicKey and privateKeyToAlgorithm\<close>

text \<open>
  The type assertion \<open>prvKey.(crypto.Signer)\<close> succeeds when the dynamic type has the
  methods \<open>Public\<close> and \<open>Sign\<close>. \<open>*rsa.PrivateKey\<close> and \<open>*ecdsa.PrivateKey\<close> declare them on
  the pointer, so the value forms are no signers; \<open>ed25519.PrivateKey\<close> declares them on the
  value, so the value and the pointer to it both are. The result is what \<open>Public()\<close> of
  the signer returns.
\<close>

fun asSigner :: "env \<Rightarrow> PrivateKey \<Rightarrow> PublicKey option" where
  "asSigner lib (Val_rsa_PrivateKey k) = None"
| "asSigner lib (Ptr_rsa_PrivateKey k) = Some (Ptr_rsa_PublicKey (rsa_PublicKey k))"
| "asSigner lib (Val_ecdsa_PrivateKey k) = None"
| "asSigner lib (Ptr_ecdsa_PrivateKey k) = Some (Ptr_ecdsa_PublicKey (ecdsa_PublicKey k))"
| "asSigner lib (Val_ed25519_PrivateKey k) = Some (ed25519_PublicKey (ed25519_Public lib k))"
| "asSigner lib (Ptr_ed25519_PrivateKey k) = Some (ed25519_PublicKey (ed25519_Public lib k))"
| "asSigner lib (Other_PrivateKey name pub) = pub"

definition privateKeyToPublicKey :: "env \<Rightarrow> PrivateKey \<Rightarrow> error + PublicKey" where
  "privateKeyToPublicKey lib prvKey =
     (case asSigner lib prvKey of
        None \<Rightarrow> Inl (''unsupported private key type: '' @ fmt_T prvKey)
      | Some pub \<Rightarrow> Inr pub)"

fun privateKeyToAlgorithm :: "PrivateKey \<Rightarrow> error + Algorithm" where
  "privateKeyToAlgorithm (Val_rsa_PrivateKey _) = Inr RSA"
| "privateKeyToAlgorithm (Ptr_rsa_PrivateKey _) = Inr RSA"
| "privateKeyToAlgorithm (Val_ecdsa_PrivateKey _) = Inr ECDSA"
| "privateKeyToAlgorithm (Ptr_ecdsa_PrivateKey _) = Inr ECDSA"
| "privateKeyToAlgorithm (Val_ed25519_PrivateKey _) = Inr ED25519"
| "privateKeyToAlgorithm (Ptr_ed25519_PrivateKey _) = Inr ED25519"
| "privateKeyToAlgorithm (Other_PrivateKey name pub) =
     Inl (''unsupported private key type: '' @ name)"

subsection \<open>parsePrivateKeyPEM and parsePrivateKeyOpenSSHPEM\<close>

definition parsePrivateKeyPEM :: "env \<Rightarrow> bytes \<Rightarrow> error + PrivateKey \<times> Algorithm" where
  "parsePrivateKeyPEM lib keyPEMBytes =
     (case pem_Decode lib keyPEMBytes of
        (None, rest) \<Rightarrow>
          Inl (''failed to decode PEM block: decoded bytes ''
               @ fmt_d (int (length keyPEMBytes) - int (length rest))
               @ '', undecoded '' @ fmt_d (int (length rest)))
      | (Some pemBlock, rest) \<Rightarrow>
          (case PEMBlockToPEMPreamble lib pemBlock of
             Inl err \<Rightarrow> Inl err
           | Inr preamble \<Rightarrow>
               (case keyParsers lib preamble of
                  None \<Rightarrow> Inl (''unable to determine parser for PEM preamble: '' @ preamble)
                | Some parser \<Rightarrow>
                    (case parser (Bytes pemBlock) of
                       Inl err \<Rightarrow>
                         Inl (''failed to parse private key given PEM preamble ''
                              @ [CHR 0x27] @ preamble @ [CHR 0x27] @ '': '' @ err)
                     | Inr prvKey \<Rightarrow>
                         (case privateKeyToAlgorithm prvKey of
                            Inl err \<Rightarrow>
                              Inl (''failed to determine key algorithm for private key of type ''
                                   @ fmt_T prvKey @ '': '' @ err)
                          | Inr algorithm \<Rightarrow> Inr (prvKey, algorithm))))))"

definition parsePrivateKeyOpenSSHPEM :: "env \<Rightarrow> bytes \<Rightarrow> error + PrivateKey \<times> Algorithm" where
  "parsePrivateKeyOpenSSHPEM lib keyOpenSSHPEMBytes =
     (case ssh_ParseRawPrivateKey lib keyOpenSSHPEMBytes of
        Inl err \<Rightarrow> Inl (''failed to parse openssh private key: '' @ err)
      | Inr prvKey \<Rightarrow>
          (case privateKeyToAlgorithm prvKey of
             Inl err \<Rightarrow>
               Inl (''failed to determine key algorithm for private key of type ''
                    @ fmt_T prvKey @ '': '' @ err)
           | Inr algorithm \<Rightarrow> Inr (prvKey, algorithm)))"

subsection \<open>setPublicKeyAttributes\<close>

text \<open>
  The function mutates \<open>d\<close> through its pointer and returns diagnostics; the model returns
  the data as the call leaves it together with the diagnostics, on every path.
\<close>

definition setPublicKeyAttributes ::
  "env \<Rightarrow> ResourceData \<Rightarrow> PrivateKey \<Rightarrow> ResourceData \<times> Diagnostics" where
  "setPublicKeyAttributes lib d prvKey =
     (case privateKeyToPublicKey lib prvKey of
        Inl err \<Rightarrow> (d, diag_Errorf (''failed to get public key from private key: '' @ err))
      | Inr pubKey \<Rightarrow>
     (case x509_MarshalPKIXPublicKey lib pubKey of
        Inl err \<Rightarrow> (d, diag_Errorf (''failed to marshal public key: '' @ err))
      | Inr pubKeyBytes \<Rightarrow>
     (let pubKeyPemBlock = \<lparr>Type = PreamblePublicKey, Headers = [], Bytes = pubKeyBytes\<rparr>;
          d1 = SetId d (hashForState lib pubKeyBytes)
      in case Set d1 ''public_key_pem'' (VString (pem_EncodeToMemory lib pubKeyPemBlock)) of
        (d2, Some err) \<Rightarrow>
          (d2, diag_Errorf (''error setting value on key '' @ [CHR 0x27] @ ''public_key_pem''
                            @ [CHR 0x27] @ '': '' @ err))
      | (d2, None) \<Rightarrow>
     (let (pubKeySSH, pubKeySSHFingerprintMD5, pubKeySSHFingerprintSHA256) =
            (case ssh_NewPublicKey lib pubKey of
               Inr sshPubKey \<Rightarrow>
                 (ssh_MarshalAuthorizedKey lib sshPubKey,
                  ssh_FingerprintLegacyMD5 lib sshPubKey,
                  ssh_FingerprintSHA256 lib sshPubKey)
             | Inl err \<Rightarrow> ('''', '''', ''''))
      in case Set d2 ''public_key_openssh'' (VString pubKeySSH) of
        (d3, Some err) \<Rightarrow>
          (d3, diag_Errorf (''error setting value on key '' @ [CHR 0x27]
                            @ ''public_key_openssh'' @ [CHR 0x27] @ '': '' @ err))
      | (d3, None) \<Rightarrow>
     (case Set d3 ''public_key_fingerprint_md5'' (VString pubKeySSHFingerprintMD5) of
        (d4, Some err) \<Rightarrow>
          (d4, diag_Errorf (''error setting value on key '' @ [CHR 0x27]
                            @ ''public_key_fingerprint_md5'' @ [CHR 0x27] @ '': '' @ err))
      | (d4, None) \<Rightarrow>
     (case Set d4 ''public_key_fingerprint_sha256'' (VString pubKeySSHFingerprintSHA256) of
        (d5, Some err) \<Rightarrow>
          (d5, diag_Errorf (''error setting value on key '' @ [CHR 0x27]
                            @ ''public_key_fingerprint_sha256'' @ [CHR 0x27] @ '': '' @ err))
      | (d5, None) \<Rightarrow> (d5, [])))))))"

section \<open>Exporting a private key\<close>

text \<open>
  Modelled from the spec: the export of a generated private key to PEM, which is code of
  the provider that is not part of the sources at hand. The spec says that the private-key
  PEM has the format that the standard conventions give the algorithm, and names the labels
  "RSA PRIVATE KEY", "EC PRIVATE KEY" and "PRIVATE KEY" (PKCS8): an RSA key is exported as
  PKCS1, an ECDSA key as an EC private key, an ED25519 key as PKCS8. The keys are of the
  dynamic types that \<open>keyGenerators\<close> returns.
\<close>

definition privateKeyBlock :: "env \<Rightarrow> PrivateKey \<Rightarrow> error + pem_Block" where
  "privateKeyBlock lib key =
     (case key of
        Ptr_rsa_PrivateKey k \<Rightarrow>
          Inr \<lparr>Type = PreamblePrivateKeyRSA, Headers = [],
               Bytes = x509_MarshalPKCS1PrivateKey lib k\<rparr>
      | Ptr_ecdsa_PrivateKey k \<Rightarrow>
          (case x509_MarshalECPrivateKey lib k of
             Inl err \<Rightarrow> Inl (''error encoding key to PEM: '' @ err)
           | Inr keyBytes \<Rightarrow>
               Inr \<lparr>Type = PreamblePrivateKeyEC, Headers = [], Bytes = keyBytes\<rparr>)
      | Val_ed25519_PrivateKey k \<Rightarrow>
          (case x509_MarshalPKCS8PrivateKey lib key of
             Inl err \<Rightarrow> Inl (''error encoding key to PEM: '' @ err)
           | Inr keyBytes \<Rightarrow>
               Inr \<lparr>Type = PreamblePrivateKeyPKCS8, Headers = [], Bytes = keyBytes\<rparr>)
      | _ \<Rightarrow> Inl (''unsupported private key type: '' @ fmt_T key))"

definition exportPrivateKeyPEM :: "env \<Rightarrow> PrivateKey \<Rightarrow> error + bytes" where
  "exportPrivateKeyPEM lib key = map_sum id (pem_EncodeToMemory lib) (privateKeyBlock lib key)"

text \<open>
  What the round trip takes from the libraries, at one key: the parsing function of
  \<open>crypto/x509\<close> gives back the key that the matching marshalling function encoded.
\<close>

fun x509_roundtrip :: "env \<Rightarrow> PrivateKey \<Rightarrow> bool" where
  "x509_roundtrip lib (Ptr_rsa_PrivateKey k) =
     (x509_ParsePKCS1PrivateKey lib (x509_MarshalPKCS1PrivateKey lib k) = Inr k)"
| "x509_roundtrip lib (Ptr_ecdsa_PrivateKey k) =
     (case x509_MarshalECPrivateKey lib k of
        Inl err \<Rightarrow> True
      | Inr der \<Rightarrow> x509_ParseECPrivateKey lib der = Inr k)"
| "x509_roundtrip lib (Val_ed25519_PrivateKey k) =
     (case x509_MarshalPKCS8PrivateKey lib (Val_ed25519_PrivateKey k) of
        Inl err \<Rightarrow> True
      | Inr der \<Rightarrow> x509_ParsePKCS8PrivateKey lib der = Inr (Val_ed25519_PrivateKey k))"
| "x509_roundtrip lib key = True"



section \<open>Certificate validity and renewal\<close>

text \<open>
  Modelled from the spec: the expiry policy, the validation of the validity fields and the
  order of validation and issuance. The code that implements them is code of the provider
  that is not part of the sources at hand; the tests of the self-signed certificate
  resource exercise it. A timestamp is a number of seconds; the spec's hours are converted
  to it. Of a \<open>CertificateSpec\<close> only the two fields the policy reads are modelled.
\<close>

type_synonym Timestamp = int

definition hours :: "int \<Rightarrow> int" where
  "hours h = h * 3600"

record CertificateSpec =
  ValidityHours :: int
  EarlyRenewalHours :: int

text \<open>
  Modelled from the spec: a certificate is bound to one issuance timestamp \<open>NotBefore\<close>
  and one \<open>NotAfter = NotBefore + ValidityHours\<close>; the serial number is unique per
  issuance.
\<close>

record Certificate =
  NotBefore :: Timestamp
  NotAfter :: Timestamp
  Serial :: nat

definition issueAt :: "CertificateSpec \<Rightarrow> nat \<Rightarrow> Timestamp \<Rightarrow> Certificate" where
  "issueAt spec serial now =
     \<lparr>NotBefore = now, NotAfter = now + hours (ValidityHours spec), Serial = serial\<rparr>"

text \<open>
  Modelled from the spec: the expiry policy, with
  \<open>Deadline = issuedAt + spec.ValidityHours - spec.EarlyRenewalHours\<close>; \<open>isCurrent\<close>
  returns true iff \<open>asOf < Deadline\<close>.
\<close>

definition Deadline :: "Timestamp \<Rightarrow> CertificateSpec \<Rightarrow> Timestamp" where
  "Deadline issuedAt spec =
     issuedAt + hours (ValidityHours spec) - hours (EarlyRenewalHours spec)"

definition isCurrent :: "Timestamp \<Rightarrow> CertificateSpec \<Rightarrow> Timestamp \<Rightarrow> bool" where
  "isCurrent issuedAt spec asOf = (asOf < Deadline issuedAt spec)"

text \<open>
  Modelled from the spec: the expiry policy is consulted on each read of an issued
  certificate, with the spec of that read and the stored issuance time, to decide whether
  the certificate must be reissued. The result says whether it was regenerated and gives
  the certificate that the read leaves behind.
\<close>

definition readCertificate ::
  "Certificate \<Rightarrow> CertificateSpec \<Rightarrow> Timestamp \<Rightarrow> bool \<times> Certificate" where
  "readCertificate cert spec asOf =
     (if isCurrent (NotBefore cert) spec asOf then (False, cert)
      else (True, issueAt spec (Suc (Serial cert)) asOf))"

text \<open>
  Modelled from the spec: the data flow of issuance followed by reads, as the tests of the
  resource drive it. Each step sets the clock and applies a configuration; the first one
  issues the certificate, the later ones read it.
\<close>

fun applySteps ::
  "Certificate option \<Rightarrow> (Timestamp \<times> CertificateSpec) list \<Rightarrow> Certificate list" where
  "applySteps st [] = []"
| "applySteps None ((now, spec) # steps) =
     (let cert = issueAt spec 0 now in cert # applySteps (Some cert) steps)"
| "applySteps (Some c) ((now, spec) # steps) =
     (let cert = snd (readCertificate c spec now) in cert # applySteps (Some cert) steps)"

text \<open>
  Modelled from the spec: a \<open>ValidationError\<close> is produced when \<open>ValidityHours < 0\<close> or
  \<open>EarlyRenewalHours < 0\<close>, with a message that names the field and the bound, before any
  cryptographic work begins. The wording of the message and the names of the fields are
  those that the test \<open>TestAccSelfSignedCert_InvalidConfigs\<close> expects.
\<close>

datatype IssueError = ValidationError "string list" | KeyError error | SigningError error

definition intAtLeast :: "int \<Rightarrow> string \<Rightarrow> int \<Rightarrow> string list" where
  "intAtLeast minimum field v =
     (if v < minimum then
        [''expected '' @ field @ '' to be at least ('' @ fmt_d minimum @ ''), got '' @ fmt_d v]
      else [])"

definition validateSpec :: "CertificateSpec \<Rightarrow> string list" where
  "validateSpec spec =
     intAtLeast 0 ''validity_period_hours'' (ValidityHours spec)
     @ intAtLeast 0 ''early_renewal_hours'' (EarlyRenewalHours spec)"

text \<open>
  Modelled from the spec: issuance of a self-signed certificate from the PEM of a private
  key, whose code is not part of the sources at hand. Validation comes first, then the
  cryptographic work, which starts with \<open>parsePrivateKeyPEM\<close> and ends with the signing
  of the certificate by the library (the parameter \<open>sign\<close>).
\<close>

definition issueSelfSigned ::
  "env \<Rightarrow> (CertificateSpec \<Rightarrow> PrivateKey \<Rightarrow> Timestamp \<Rightarrow> error + bytes) \<Rightarrow>
   CertificateSpec \<Rightarrow> bytes \<Rightarrow> Timestamp \<Rightarrow> IssueError + bytes" where
  "issueSelfSigned lib sign spec keyPEM now =
     (case validateSpec spec of
        e # es \<Rightarrow> Inl (ValidationError (e # es))
      | [] \<Rightarrow>
          (case parsePrivateKeyPEM lib keyPEM of
             Inl err \<Rightarrow> Inl (KeyError err)
           | Inr (key, algorithm) \<Rightarrow>
               (case sign spec key now of
                  Inl err \<Rightarrow> Inl (SigningError err)
                | Inr certPEM \<Rightarrow> Inr certPEM)))"

section \<open>A small library to run the code on\<close>

text \<open>
  An instance of the library record on which the functions above can be evaluated: one key
  of each algorithm, a parsing function for each marshalling function, a PEM framing without
  the base64 step and, as the comment in \<open>setPublicKeyAttributes\<close> says of
  \<open>x/crypto/ssh\<close>, an SSH encoding that refuses the curve P-224.
\<close>

definition sample_rsa_key :: rsa_PrivateKey where
  "sample_rsa_key =
     \<lparr>rsa_PublicKey = \<lparr>rsa_N = 3233, rsa_E = 17\<rparr>, rsa_D = 413, rsa_Primes = [61, 53]\<rparr>"

definition sample_ecdsa_key :: "Curve \<Rightarrow> ecdsa_PrivateKey" where
  "sample_ecdsa_key curve =
     \<lparr>ecdsa_PublicKey = \<lparr>ecdsa_Curve = curve, ecdsa_X = 3, ecdsa_Y = 6\<rparr>, ecdsa_D = 1\<rparr>"

definition sample_ed25519_key :: bytes where
  "sample_ed25519_key = ''seedpubl''"

definition curve_name :: "Curve \<Rightarrow> string" where
  "curve_name c = (case c of elliptic_P224 \<Rightarrow> ''P-224'' | elliptic_P256 \<Rightarrow> ''P-256''
                           | elliptic_P384 \<Rightarrow> ''P-384'' | elliptic_P521 \<Rightarrow> ''P-521'')"

definition curve_of_name :: "string \<Rightarrow> Curve option" where
  "curve_of_name s =
     (if s = ''P-224'' then Some elliptic_P224 else if s = ''P-256'' then Some elliptic_P256
      else if s = ''P-384'' then Some elliptic_P384 else if s = ''P-521'' then Some elliptic_P521
      else None)"

fun strip_prefix :: "string \<Rightarrow> string \<Rightarrow> string option" where
  "strip_prefix [] ys = Some ys"
| "strip_prefix (x # xs) [] = None"
| "strip_prefix (x # xs) (y # ys) = (if x = y then strip_prefix xs ys else None)"

definition sample_pem_Encode :: "pem_Block \<Rightarrow> bytes" where
  "sample_pem_Encode b =
     ''-----BEGIN '' @ Type b @ ''-----'' @ [CHR 0x0A] @ Bytes b @ [CHR 0x0A]
     @ ''-----END '' @ Type b @ ''-----'' @ [CHR 0x0A]"

definition sample_pem_Decode :: "bytes \<Rightarrow> pem_Block option \<times> bytes" where
  "sample_pem_Decode data =
     (case strip_prefix ''-----BEGIN '' data of
        None \<Rightarrow> (None, data)
      | Some r1 \<Rightarrow>
          (let ty = takeWhile (\<lambda>c. c \<noteq> CHR ''-'') r1;
               r2 = dropWhile (\<lambda>c. c \<noteq> CHR ''-'') r1
           in case strip_prefix (''-----'' @ [CHR 0x0A]) r2 of
                None \<Rightarrow> (None, data)
              | Some r3 \<Rightarrow>
                  (let body = takeWhile (\<lambda>c. c \<noteq> CHR 0x0A) r3;
                       r4 = dropWhile (\<lambda>c. c \<noteq> CHR 0x0A) r3
                   in case strip_prefix ([CHR 0x0A] @ ''-----END '' @ ty @ ''-----''
                                         @ [CHR 0x0A]) r4 of
                        None \<Rightarrow> (None, data)
                      | Some rest \<Rightarrow>
                          (Some \<lparr>Type = ty, Headers = [], Bytes = body\<rparr>, rest))))"

definition sample_PEMBlockToPEMPreamble :: "pem_Block \<Rightarrow> error + PEMPreamble" where
  "sample_PEMBlockToPEMPreamble b =
     (if Type b \<in> set [PreamblePublicKey, PreamblePrivateKeyPKCS8, PreamblePrivateKeyRSA,
                       PreamblePrivateKeyEC, ''CERTIFICATE'']
      then Inr (Type b) else Inl (''unsupported PEM preamble/type: '' @ Type b))"

definition sample_ParsePKCS8 :: "bytes \<Rightarrow> error + PrivateKey" where
  "sample_ParsePKCS8 der =
     (case strip_prefix ''pkcs8 ed25519 '' der of
        Some k \<Rightarrow> Inr (Val_ed25519_PrivateKey k)
      | None \<Rightarrow>
          (if der = ''pkcs8 rsa'' then Inr (Ptr_rsa_PrivateKey sample_rsa_key)
           else case strip_prefix ''pkcs8 ec '' der of
                  None \<Rightarrow> Inl ''x509: failed to parse private key''
                | Some n \<Rightarrow>
                    (case curve_of_name n of
                       None \<Rightarrow> Inl ''x509: unknown elliptic curve''
                     | Some c \<Rightarrow> Inr (Ptr_ecdsa_PrivateKey (sample_ecdsa_key c)))))"

definition sample_MarshalPKCS8 :: "PrivateKey \<Rightarrow> error + bytes" where
  "sample_MarshalPKCS8 key =
     (case key of
        Val_ed25519_PrivateKey k \<Rightarrow> Inr (''pkcs8 ed25519 '' @ k)
      | Ptr_rsa_PrivateKey k \<Rightarrow> Inr ''pkcs8 rsa''
      | Ptr_ecdsa_PrivateKey k \<Rightarrow> Inr (''pkcs8 ec '' @ curve_name (ecdsa_Curve (ecdsa_PublicKey k)))
      | _ \<Rightarrow> Inl ''x509: unknown key type while marshaling PKCS#8'')"

definition sample_MarshalPKIX :: "PublicKey \<Rightarrow> error + bytes" where
  "sample_MarshalPKIX pub =
     (case pub of
        Ptr_rsa_PublicKey k \<Rightarrow> Inr ''spki rsa''
      | Ptr_ecdsa_PublicKey k \<Rightarrow> Inr (''spki ec '' @ curve_name (ecdsa_Curve k))
      | ed25519_PublicKey k \<Rightarrow> Inr (''spki ed25519 '' @ k)
      | Other_PublicKey name \<Rightarrow> Inl (''x509: unsupported public key type: '' @ name))"

definition sample_NewPublicKey :: "PublicKey \<Rightarrow> error + ssh_PublicKey" where
  "sample_NewPublicKey pub =
     (case pub of
        Ptr_rsa_PublicKey k \<Rightarrow> Inr ''ssh-rsa''
      | Ptr_ecdsa_PublicKey k \<Rightarrow>
          (if ecdsa_Curve k = elliptic_P224
           then Inl ''ssh: only P-256, P-384 and P-521 EC keys are supported''
           else Inr (''ecdsa-sha2-'' @ curve_name (ecdsa_Curve k)))
      | ed25519_PublicKey k \<Rightarrow> Inr (''ssh-ed25519 '' @ k)
      | Other_PublicKey name \<Rightarrow> Inl (''ssh: unsupported key type '' @ name))"

definition sample_env :: env where
  "sample_env =
     \<lparr>rsa_GenerateKey = (\<lambda>rnd bits.
         if bits < 4 then Inl ''crypto/rsa: too few bits'' else Inr sample_rsa_key),
      ecdsa_GenerateKey = (\<lambda>curve rnd. Inr (sample_ecdsa_key curve)),
      ed25519_GenerateKey = (\<lambda>rnd. Inr (''publ'', sample_ed25519_key)),
      ed25519_Public = drop 4,
      x509_ParsePKCS1PrivateKey = (\<lambda>der.
         if der = ''pkcs1 rsa'' then Inr sample_rsa_key else Inl ''asn1: syntax error''),
      x509_ParseECPrivateKey = (\<lambda>der.
         case strip_prefix ''sec1 '' der of
           None \<Rightarrow> Inl ''x509: failed to parse EC private key''
         | Some n \<Rightarrow> (case curve_of_name n of
                        None \<Rightarrow> Inl ''x509: unknown elliptic curve''
                      | Some c \<Rightarrow> Inr (sample_ecdsa_key c))),
      x509_ParsePKCS8PrivateKey = sample_ParsePKCS8,
      x509_MarshalPKCS1PrivateKey = (\<lambda>k. ''pkcs1 rsa''),
      x509_MarshalECPrivateKey = (\<lambda>k.
         Inr (''sec1 '' @ curve_name (ecdsa_Curve (ecdsa_PublicKey k)))),
      x509_MarshalPKCS8PrivateKey = sample_MarshalPKCS8,
      x509_MarshalPKIXPublicKey = sample_MarshalPKIX,
      pem_Decode = sample_pem_Decode,
      pem_EncodeToMemory = sample_pem_Encode,
      ssh_ParseRawPrivateKey = (\<lambda>data. Inl ''ssh: no key found''),
      ssh_NewPublicKey = sample_NewPublicKey,
      ssh_MarshalAuthorizedKey = (\<lambda>k. k @ [CHR 0x0A]),
      ssh_FingerprintLegacyMD5 = (\<lambda>k. ''md5 '' @ k),
      ssh_FingerprintSHA256 = (\<lambda>k. ''SHA256:'' @ k),
      hashForState = (\<lambda>s. ''sha1 '' @ s),
      PEMBlockToPEMPreamble = sample_PEMBlockToPEMPreamble\<rparr>"

text \<open>Resource data of a private key resource, with one curve name or another.\<close>

definition sample_data :: "string \<Rightarrow> ResourceData" where
  "sample_data curve =
     \<lparr>Schema = [''algorithm'', ''rsa_bits'', ''ecdsa_curve'', ''private_key_pem'',
                ''public_key_pem'', ''public_key_openssh'', ''public_key_fingerprint_md5'',
                ''public_key_fingerprint_sha256''],
      Attrs = [''rsa_bits'' \<mapsto> VInt 2048, ''ecdsa_curve'' \<mapsto> VString curve],
      Id = ''''\<rparr>"

section \<open>Properties\<close>

subsection \<open>Formatting and resource data\<close>

lemma fmt_d_0: "fmt_d 0 = ''0''"
  by (simp add: fmt_d_def fmt_nat.simps)

text \<open>The numerals of \<open>%d\<close> denote the numbers they were printed from.\<close>

lemma digit_value:
  assumes "d < 10"
  shows "of_char (''0123456789'' ! d) - 48 = d"
proof -
  from assms have "d \<in> {0, 1, 2, 3, 4, 5, 6, 7, 8, 9}" by auto
  then show ?thesis by auto
qed

lemma digit_not_minus:
  assumes "d < 10"
  shows "''0123456789'' ! d \<noteq> CHR ''-''"
proof -
  from assms have "d \<in> {0, 1, 2, 3, 4, 5, 6, 7, 8, 9}" by auto
  then show ?thesis by auto
qed

lemma read_nat_snoc: "read_nat (s @ [c]) = 10 * read_nat s + (of_char c - 48)"
  by (simp add: read_nat_def)

lemma read_nat_fmt_nat: "read_nat (fmt_nat n) = n"
proof (induction n rule: fmt_nat.induct)
  case (1 n)
  show ?case
  proof (cases "n < 10")
    case True
    then show ?thesis
      by (subst fmt_nat.simps) (simp add: read_nat_def digit_value)
  next
    case False
    with 1 have "read_nat (fmt_nat (n div 10)) = n div 10" by simp
    with False show ?thesis
      by (subst fmt_nat.simps) (simp add: read_nat_snoc digit_value)
  qed
qed

lemma hd_fmt_nat: "fmt_nat n \<noteq> [] \<and> hd (fmt_nat n) \<noteq> CHR ''-''"
proof (induction n rule: fmt_nat.induct)
  case (1 n)
  show ?case
  proof (cases "n < 10")
    case True
    then show ?thesis
      by (subst (1 2) fmt_nat.simps) (simp add: digit_not_minus)
  next
    case False
    with 1 show ?thesis
      by (subst (1 2) fmt_nat.simps) simp
  qed
qed

lemma read_int_fmt_d: "read_int (fmt_d i) = i"
proof (cases "i < 0")
  case True
  then show ?thesis by (simp add: read_int_def fmt_d_def read_nat_fmt_nat)
next
  case False
  obtain c cs where s: "fmt_nat (nat i) = c # cs" and c: "c \<noteq> CHR ''-''"
    using hd_fmt_nat [of "nat i"] by (cases "fmt_nat (nat i)") auto
  have "read_nat (c # cs) = nat i" using read_nat_fmt_nat [of "nat i"] s by simp
  with False s c show ?thesis by (simp add: read_int_def fmt_d_def)
qed

lemma Set_declared:
  "key \<in> set (Schema d) \<Longrightarrow> Set d key v = (d\<lparr>Attrs := (Attrs d)(key \<mapsto> v)\<rparr>, None)"
  by (simp add: Set_def)

lemma Set_undeclared:
  "key \<notin> set (Schema d) \<Longrightarrow> fst (Set d key v) = d \<and> snd (Set d key v) \<noteq> None"
  by (simp add: Set_def)

subsection \<open>Identifying the algorithm and deriving the public key\<close>



subsection \<open>Parsing a private key from PEM\<close>

text \<open>
  C5. When no PEM block can be decoded from the input (\<open>pem.Decode\<close> returns no block),
  \<open>parsePrivateKeyPEM\<close> returns an error, so neither a key nor an algorithm, and the message
  gives the number of decoded bytes (the length of the input less the length of the rest
  that \<open>pem.Decode\<close> returns) and the number of undecoded bytes (the length of that rest).
\<close>

theorem parsePrivateKeyPEM_no_block:
  assumes "pem_Decode lib keyPEMBytes = (None, rest)"
  shows "parsePrivateKeyPEM lib keyPEMBytes =
           Inl (''failed to decode PEM block: decoded bytes ''
                @ fmt_d (int (length keyPEMBytes) - int (length rest))
                @ '', undecoded '' @ fmt_d (int (length rest)))"
  using assms by (simp add: parsePrivateKeyPEM_def)

theorem parsePrivateKeyPEM_no_block_witness:
  "pem_Decode sample_env ''not a pem'' = (None, ''not a pem'')
   \<and> parsePrivateKeyPEM sample_env ''not a pem''
       = Inl ''failed to decode PEM block: decoded bytes 0, undecoded 9''"
proof -
  have h: "pem_Decode sample_env ''not a pem'' = (None, ''not a pem'')"
    by (simp add: sample_env_def sample_pem_Decode_def)
  show ?thesis
    using h parsePrivateKeyPEM_no_block [OF h]
    by (simp add: fmt_d_def fmt_nat.simps)
qed

subsection \<open>Generating an ECDSA key\<close>

text \<open>
  C6. The ECDSA generator is the one registered under \<open>ECDSA\<close>. Given a curve tag that is
  none of P224, P256, P384 and P521 it returns an error, so no key, and the message lists
  the supported curves; given one of the four tags it returns what \<open>ecdsa.GenerateKey\<close>
  returns for the curve of that tag.
\<close>

theorem generateECDSA_curve_dispatch:
  assumes "Get d ''ecdsa_curve'' = Some (VString curve)"
  shows "keyGenerators lib ECDSA = Some (generateECDSA lib)
    \<and> (curve \<notin> set SupportedECDSACurves \<longrightarrow>
         generateECDSA lib d rnd =
           Return (Inl ''invalid ECDSA curve; supported values are: [P224 P256 P384 P521]''))
    \<and> (curve = P224 \<longrightarrow> generateECDSA lib d rnd =
           Return (map_sum id Ptr_ecdsa_PrivateKey (ecdsa_GenerateKey lib elliptic_P224 rnd)))
    \<and> (curve = P256 \<longrightarrow> generateECDSA lib d rnd =
           Return (map_sum id Ptr_ecdsa_PrivateKey (ecdsa_GenerateKey lib elliptic_P256 rnd)))
    \<and> (curve = P384 \<longrightarrow> generateECDSA lib d rnd =
           Return (map_sum id Ptr_ecdsa_PrivateKey (ecdsa_GenerateKey lib elliptic_P384 rnd)))
    \<and> (curve = P521 \<longrightarrow> generateECDSA lib d rnd =
           Return (map_sum id Ptr_ecdsa_PrivateKey (ecdsa_GenerateKey lib elliptic_P521 rnd)))"
proof -
  have registered: "keyGenerators lib ECDSA = Some (generateECDSA lib)"
    by (simp add: keyGenerators_def RSA_def ECDSA_def ED25519_def)
  have listed: "fmt_v_strings SupportedECDSACurves = ''[P224 P256 P384 P521]''"
    by (simp add: fmt_v_strings_def SupportedECDSACurves_def P224_def P256_def P384_def
                  P521_def)
  have unknown: "generateECDSA lib d rnd =
      Return (Inl ''invalid ECDSA curve; supported values are: [P224 P256 P384 P521]'')"
    if "curve \<notin> set SupportedECDSACurves"
    using that assms unfolding generateECDSA_def listed
    by (simp add: SupportedECDSACurves_def)
  have known: "generateECDSA lib d rnd =
      Return (map_sum id Ptr_ecdsa_PrivateKey (ecdsa_GenerateKey lib c rnd))"
    if "(curve, c) \<in> set [(P224, elliptic_P224), (P256, elliptic_P256),
                            (P384, elliptic_P384), (P521, elliptic_P521)]" for c
    using that assms
    by (auto simp: generateECDSA_def P224_def P256_def P384_def P521_def)
  show ?thesis
    using registered unknown known by simp
qed

theorem generateECDSA_curve_dispatch_witness:
  "Get (sample_data ''P192'') ''ecdsa_curve'' = Some (VString ''P192'')
   \<and> ''P192'' \<notin> set SupportedECDSACurves
   \<and> generateECDSA sample_env (sample_data ''P192'') [] =
       Return (Inl ''invalid ECDSA curve; supported values are: [P224 P256 P384 P521]'')
   \<and> Get (sample_data P224) ''ecdsa_curve'' = Some (VString P224)
   \<and> generateECDSA sample_env (sample_data P224) [] =
       Return (Inr (Ptr_ecdsa_PrivateKey (sample_ecdsa_key elliptic_P224)))"
proof -
  have h1: "Get (sample_data ''P192'') ''ecdsa_curve'' = Some (VString ''P192'')"
    by (simp add: Get_def sample_data_def)
  have h2: "''P192'' \<notin> set SupportedECDSACurves"
    by (simp add: SupportedECDSACurves_def P224_def P256_def P384_def P521_def)
  have h3: "Get (sample_data P224) ''ecdsa_curve'' = Some (VString P224)"
    by (simp add: Get_def sample_data_def)
  have lib: "ecdsa_GenerateKey sample_env elliptic_P224 [] = Inr (sample_ecdsa_key elliptic_P224)"
    by (simp add: sample_env_def)
  show ?thesis
    using h1 h2 h3 lib
      generateECDSA_curve_dispatch [OF h1, of sample_env "[]"]
      generateECDSA_curve_dispatch [OF h3, of sample_env "[]"]
    by simp
qed

subsection \<open>Setting the public key attributes\<close>

lemma setPublicKeyAttributes_no_signer:
  "privateKeyToPublicKey lib prvKey = Inl err \<Longrightarrow>
   setPublicKeyAttributes lib d prvKey =
     (d, [''failed to get public key from private key: '' @ err])"
  by (simp add: setPublicKeyAttributes_def diag_Errorf_def)

lemma setPublicKeyAttributes_no_der:
  "privateKeyToPublicKey lib prvKey = Inr pubKey \<Longrightarrow>
   x509_MarshalPKIXPublicKey lib pubKey = Inl err \<Longrightarrow>
   setPublicKeyAttributes lib d prvKey = (d, [''failed to marshal public key: '' @ err])"
  by (simp add: setPublicKeyAttributes_def diag_Errorf_def)

lemma setPublicKeyAttributes_Id:
  assumes "privateKeyToPublicKey lib prvKey = Inr pubKey"
    and "x509_MarshalPKIXPublicKey lib pubKey = Inr der"
  shows "Id (fst (setPublicKeyAttributes lib d prvKey)) = hashForState lib der"
  using assms
  by (simp add: setPublicKeyAttributes_def Set_def SetId_def Let_def
           split: sum.splits prod.splits option.splits)

lemma setPublicKeyAttributes_pem:
  assumes "privateKeyToPublicKey lib prvKey = Inr pubKey"
    and "x509_MarshalPKIXPublicKey lib pubKey = Inr der"
    and "''public_key_pem'' \<in> set (Schema d)"
  shows "Attrs (fst (setPublicKeyAttributes lib d prvKey)) ''public_key_pem'' =
           Some (VString (pem_EncodeToMemory lib
                            \<lparr>Type = PreamblePublicKey, Headers = [], Bytes = der\<rparr>))"
  using assms
  by (simp add: setPublicKeyAttributes_def Set_def SetId_def Let_def
           split: sum.splits prod.splits option.splits)

text \<open>
  C4. For an ECDSA private key on the curve P-224, which \<open>ssh.NewPublicKey\<close> refuses,
  \<open>setPublicKeyAttributes\<close> returns no diagnostics and sets \<open>public_key_openssh\<close>,
  \<open>public_key_fingerprint_md5\<close> and \<open>public_key_fingerprint_sha256\<close> to the empty string,
  while \<open>public_key_pem\<close> is the PEM encoding of the public key, which is not empty. The
  public key is one that \<open>x509.MarshalPKIXPublicKey\<close> encodes and the schema of the resource
  declares the four attributes.
\<close>

theorem setPublicKeyAttributes_P224:
  assumes "ecdsa_Curve (ecdsa_PublicKey k) = elliptic_P224"
    and "\<forall>pk. ecdsa_Curve pk = elliptic_P224 \<longrightarrow>
               isl (ssh_NewPublicKey lib (Ptr_ecdsa_PublicKey pk))"
    and "x509_MarshalPKIXPublicKey lib (Ptr_ecdsa_PublicKey (ecdsa_PublicKey k)) = Inr der"
    and "pem_EncodeToMemory lib \<lparr>Type = PreamblePublicKey, Headers = [], Bytes = der\<rparr> \<noteq> []"
    and "set [''public_key_pem'', ''public_key_openssh'', ''public_key_fingerprint_md5'',
              ''public_key_fingerprint_sha256''] \<subseteq> set (Schema d)"
  shows "\<exists>d' pem. setPublicKeyAttributes lib d (Ptr_ecdsa_PrivateKey k) = (d', [])
           \<and> Attrs d' ''public_key_openssh'' = Some (VString '''')
           \<and> Attrs d' ''public_key_fingerprint_md5'' = Some (VString '''')
           \<and> Attrs d' ''public_key_fingerprint_sha256'' = Some (VString '''')
           \<and> Attrs d' ''public_key_pem'' = Some (VString pem) \<and> pem \<noteq> ''''"
proof -
  from assms(1,2) obtain err where
    ssh: "ssh_NewPublicKey lib (Ptr_ecdsa_PublicKey (ecdsa_PublicKey k)) = Inl err"
    by (metis sum.collapse(1))
  have pub: "privateKeyToPublicKey lib (Ptr_ecdsa_PrivateKey k)
               = Inr (Ptr_ecdsa_PublicKey (ecdsa_PublicKey k))"
    by (simp add: privateKeyToPublicKey_def)
  show ?thesis
    using assms(3,4,5)
    by (simp add: setPublicKeyAttributes_def pub ssh Set_declared SetId_def Let_def)
qed

theorem setPublicKeyAttributes_P224_witness:
  "ecdsa_Curve (ecdsa_PublicKey (sample_ecdsa_key elliptic_P224)) = elliptic_P224
   \<and> snd (setPublicKeyAttributes sample_env (sample_data P224)
            (Ptr_ecdsa_PrivateKey (sample_ecdsa_key elliptic_P224))) = []
   \<and> map (Attrs (fst (setPublicKeyAttributes sample_env (sample_data P224)
                        (Ptr_ecdsa_PrivateKey (sample_ecdsa_key elliptic_P224)))))
       [''public_key_openssh'', ''public_key_fingerprint_md5'',
        ''public_key_fingerprint_sha256'']
     = [Some (VString ''''), Some (VString ''''), Some (VString '''')]
   \<and> Attrs (fst (setPublicKeyAttributes sample_env (sample_data P224)
                   (Ptr_ecdsa_PrivateKey (sample_ecdsa_key elliptic_P224))))
       ''public_key_pem''
     = Some (VString (sample_pem_Encode
               \<lparr>Type = ''PUBLIC KEY'', Headers = [], Bytes = ''spki ec P-224''\<rparr>))"
proof -
  have h1: "ecdsa_Curve (ecdsa_PublicKey (sample_ecdsa_key elliptic_P224)) = elliptic_P224"
    by (simp add: sample_ecdsa_key_def)
  have h2: "\<forall>pk. ecdsa_Curve pk = elliptic_P224 \<longrightarrow>
               isl (ssh_NewPublicKey sample_env (Ptr_ecdsa_PublicKey pk))"
    by (simp add: sample_env_def sample_NewPublicKey_def)
  have h3: "x509_MarshalPKIXPublicKey sample_env
              (Ptr_ecdsa_PublicKey (ecdsa_PublicKey (sample_ecdsa_key elliptic_P224)))
            = Inr ''spki ec P-224''"
    by (simp add: sample_env_def sample_MarshalPKIX_def sample_ecdsa_key_def curve_name_def)
  have h4: "pem_EncodeToMemory sample_env
              \<lparr>Type = PreamblePublicKey, Headers = [], Bytes = ''spki ec P-224''\<rparr> \<noteq> []"
    by (simp add: sample_env_def sample_pem_Encode_def)
  have h5: "set [''public_key_pem'', ''public_key_openssh'', ''public_key_fingerprint_md5'',
                 ''public_key_fingerprint_sha256''] \<subseteq> set (Schema (sample_data P224))"
    by (simp add: sample_data_def)
  have enc: "pem_EncodeToMemory sample_env = sample_pem_Encode"
    by (simp add: sample_env_def)
  from setPublicKeyAttributes_P224 [OF h1 h2 h3 h4 h5] obtain d' pem where
    r: "setPublicKeyAttributes sample_env (sample_data P224)
          (Ptr_ecdsa_PrivateKey (sample_ecdsa_key elliptic_P224)) = (d', [])"
    and a: "Attrs d' ''public_key_openssh'' = Some (VString '''')"
           "Attrs d' ''public_key_fingerprint_md5'' = Some (VString '''')"
           "Attrs d' ''public_key_fingerprint_sha256'' = Some (VString '''')"
    by blast
  have pub: "privateKeyToPublicKey sample_env
               (Ptr_ecdsa_PrivateKey (sample_ecdsa_key elliptic_P224))
             = Inr (Ptr_ecdsa_PublicKey (ecdsa_PublicKey (sample_ecdsa_key elliptic_P224)))"
    by (simp add: privateKeyToPublicKey_def)
  have "''public_key_pem'' \<in> set (Schema (sample_data P224))"
    by (simp add: sample_data_def)
  from setPublicKeyAttributes_pem [OF pub h3 this]
  have p: "Attrs (fst (setPublicKeyAttributes sample_env (sample_data P224)
                   (Ptr_ecdsa_PrivateKey (sample_ecdsa_key elliptic_P224))))
             ''public_key_pem''
           = Some (VString (sample_pem_Encode
               \<lparr>Type = ''PUBLIC KEY'', Headers = [], Bytes = ''spki ec P-224''\<rparr>))"
    by (simp add: enc PreamblePublicKey_def)
  show ?thesis
    using h1 r a p by simp
qed

lemma setPublicKeyAttributes_declared:
  assumes "privateKeyToPublicKey lib prvKey = Inr pubKey"
    and "x509_MarshalPKIXPublicKey lib pubKey = Inr der"
    and "set [''public_key_pem'', ''public_key_openssh'', ''public_key_fingerprint_md5'',
              ''public_key_fingerprint_sha256''] \<subseteq> set (Schema d)"
  shows "snd (setPublicKeyAttributes lib d prvKey) = []"
  using assms
  by (cases "ssh_NewPublicKey lib pubKey")
     (simp_all add: setPublicKeyAttributes_def Set_declared SetId_def Let_def)

text \<open>
  C9. On resource data whose schema declares the four public key attributes, as the schema
  of every resource that sets them does, \<open>setPublicKeyAttributes\<close> returns an error only
  when the public key cannot be derived from the private key or cannot be marshalled, and
  then the resource data is as it was before the call: the identifier and the four
  attributes \<open>public_key_pem\<close>, \<open>public_key_openssh\<close>, \<open>public_key_fingerprint_md5\<close> and
  \<open>public_key_fingerprint_sha256\<close> have not been set.
\<close>

theorem setPublicKeyAttributes_error_leaves_data:
  assumes "set [''public_key_pem'', ''public_key_openssh'', ''public_key_fingerprint_md5'',
                ''public_key_fingerprint_sha256''] \<subseteq> set (Schema d)"
    and "setPublicKeyAttributes lib d prvKey = (d', diags)"
    and "diags \<noteq> []"
  shows "d' = d
    \<and> Id d' = Id d
    \<and> Attrs d' ''public_key_pem'' = Attrs d ''public_key_pem''
    \<and> Attrs d' ''public_key_openssh'' = Attrs d ''public_key_openssh''
    \<and> Attrs d' ''public_key_fingerprint_md5'' = Attrs d ''public_key_fingerprint_md5''
    \<and> Attrs d' ''public_key_fingerprint_sha256'' = Attrs d ''public_key_fingerprint_sha256''
    \<and> ((\<exists>err. privateKeyToPublicKey lib prvKey = Inl err)
        \<or> (\<exists>pubKey err. privateKeyToPublicKey lib prvKey = Inr pubKey
              \<and> x509_MarshalPKIXPublicKey lib pubKey = Inl err))"
proof (cases "privateKeyToPublicKey lib prvKey")
  case (Inl err)
  with assms(2) have "d' = d"
    using setPublicKeyAttributes_no_signer [OF Inl, of d] by simp
  with Inl show ?thesis by simp
next
  case (Inr pubKey)
  show ?thesis
  proof (cases "x509_MarshalPKIXPublicKey lib pubKey")
    case (Inl err)
    with assms(2) have "d' = d"
      using setPublicKeyAttributes_no_der [OF Inr Inl, of d] by simp
    with Inr Inl show ?thesis by simp
  next
    case der: (Inr der)
    from setPublicKeyAttributes_declared [OF Inr der assms(1)] assms(2) have "diags = []"
      by simp
    with assms(3) show ?thesis by simp
  qed
qed

theorem setPublicKeyAttributes_error_leaves_data_witness:
  "set [''public_key_pem'', ''public_key_openssh'', ''public_key_fingerprint_md5'',
        ''public_key_fingerprint_sha256''] \<subseteq> set (Schema (sample_data P256))
   \<and> setPublicKeyAttributes sample_env (sample_data P256) (Val_rsa_PrivateKey sample_rsa_key)
     = (sample_data P256,
        [''failed to get public key from private key: ''
         @ ''unsupported private key type: rsa.PrivateKey''])
   \<and> setPublicKeyAttributes sample_env (sample_data P256)
       (Other_PrivateKey ''*kms.Signer'' (Some (Other_PublicKey ''*kms.PublicKey'')))
     = (sample_data P256,
        [''failed to marshal public key: ''
         @ ''x509: unsupported public key type: *kms.PublicKey''])"
proof -
  let ?d = "sample_data P256"
  have h: "set [''public_key_pem'', ''public_key_openssh'', ''public_key_fingerprint_md5'',
                ''public_key_fingerprint_sha256''] \<subseteq> set (Schema ?d)"
    by (simp add: sample_data_def)
  have first: "setPublicKeyAttributes sample_env ?d (Val_rsa_PrivateKey sample_rsa_key)
     = (?d, [''failed to get public key from private key: ''
             @ ''unsupported private key type: rsa.PrivateKey''])"
  proof -
    let ?k = "Val_rsa_PrivateKey sample_rsa_key"
    have e: "privateKeyToPublicKey sample_env ?k
               = Inl ''unsupported private key type: rsa.PrivateKey''"
      by (simp add: privateKeyToPublicKey_def)
    obtain d' diags where r: "setPublicKeyAttributes sample_env ?d ?k = (d', diags)"
      by (cases "setPublicKeyAttributes sample_env ?d ?k")
    have diags: "diags = [''failed to get public key from private key: ''
                           @ ''unsupported private key type: rsa.PrivateKey'']"
      using r setPublicKeyAttributes_no_signer [OF e, of ?d] by simp
    then have "diags \<noteq> []" by simp
    from setPublicKeyAttributes_error_leaves_data [OF h r this] have "d' = ?d"
      by blast
    with r diags show ?thesis by simp
  qed
  have second: "setPublicKeyAttributes sample_env ?d
       (Other_PrivateKey ''*kms.Signer'' (Some (Other_PublicKey ''*kms.PublicKey'')))
     = (?d, [''failed to marshal public key: ''
             @ ''x509: unsupported public key type: *kms.PublicKey''])"
  proof -
    let ?k = "Other_PrivateKey ''*kms.Signer'' (Some (Other_PublicKey ''*kms.PublicKey''))"
    have p: "privateKeyToPublicKey sample_env ?k = Inr (Other_PublicKey ''*kms.PublicKey'')"
      by (simp add: privateKeyToPublicKey_def)
    have e: "x509_MarshalPKIXPublicKey sample_env (Other_PublicKey ''*kms.PublicKey'')
               = Inl ''x509: unsupported public key type: *kms.PublicKey''"
      by (simp add: sample_env_def sample_MarshalPKIX_def)
    obtain d' diags where r: "setPublicKeyAttributes sample_env ?d ?k = (d', diags)"
      by (cases "setPublicKeyAttributes sample_env ?d ?k")
    have diags: "diags = [''failed to marshal public key: ''
                           @ ''x509: unsupported public key type: *kms.PublicKey'']"
      using r setPublicKeyAttributes_no_der [OF p e, of ?d] by simp
    then have "diags \<noteq> []" by simp
    from setPublicKeyAttributes_error_leaves_data [OF h r this] have "d' = ?d"
      by blast
    with r diags show ?thesis by simp
  qed
  show ?thesis
    using h first second by simp
qed


subsection \<open>Generating, exporting and parsing a private key\<close>

lemma parsePrivateKeyPEM_block:
  assumes "fst (pem_Decode lib keyPEMBytes) = Some pemBlock"
    and "PEMBlockToPEMPreamble lib pemBlock = Inr preamble"
    and "keyParsers lib preamble = Some parser"
    and "parser (Bytes pemBlock) = Inr prvKey"
    and "privateKeyToAlgorithm prvKey = Inr algorithm"
  shows "parsePrivateKeyPEM lib keyPEMBytes = Inr (prvKey, algorithm)"
proof -
  obtain rest where "pem_Decode lib keyPEMBytes = (Some pemBlock, rest)"
    using assms(1) by (cases "pem_Decode lib keyPEMBytes") simp
  then show ?thesis
    using assms(2-5) by (simp add: parsePrivateKeyPEM_def)
qed

lemma keyGenerators_cases:
  assumes "keyGenerators lib alg = Some gen"
  shows "alg = RSA \<and> gen = generateRSA lib \<or> alg = ECDSA \<and> gen = generateECDSA lib
         \<or> alg = ED25519 \<and> gen = generateED25519 lib"
  using assms by (auto simp: keyGenerators_def split: if_splits)

lemma generateRSA_key:
  "generateRSA lib d rnd = Return (Inr key) \<Longrightarrow> \<exists>k. key = Ptr_rsa_PrivateKey k"
  by (auto simp: generateRSA_def map_sum_def
           split: option.splits Value.splits sum.splits)

lemma generateECDSA_key:
  "generateECDSA lib d rnd = Return (Inr key) \<Longrightarrow> \<exists>k. key = Ptr_ecdsa_PrivateKey k"
  by (auto simp: generateECDSA_def map_sum_def
           split: option.splits Value.splits sum.splits if_splits)

lemma generateED25519_key:
  "generateED25519 lib d rnd = Return (Inr key) \<Longrightarrow> \<exists>k. key = Val_ed25519_PrivateKey k"
  by (auto simp: generateED25519_def split: sum.splits prod.splits)

lemma generated_key_roundtrip:
  assumes "keyGenerators lib alg = Some gen"
    and "gen d rnd = Return (Inr key)"
    and "privateKeyBlock lib key = Inr blk"
    and "fst (pem_Decode lib (pem_EncodeToMemory lib blk)) = Some blk"
    and "PEMBlockToPEMPreamble lib blk = Inr (Type blk)"
    and "x509_roundtrip lib key"
  shows "alg \<in> {RSA, ECDSA, ED25519}
    \<and> exportPrivateKeyPEM lib key = Inr (pem_EncodeToMemory lib blk)
    \<and> parsePrivateKeyPEM lib (pem_EncodeToMemory lib blk) = Inr (key, alg)
    \<and> (\<exists>pub. privateKeyToPublicKey lib key = Inr pub)"
proof -
  have export: "exportPrivateKeyPEM lib key = Inr (pem_EncodeToMemory lib blk)"
    using assms(3) by (simp add: exportPrivateKeyPEM_def)
  consider (rsa) "alg = RSA" "gen = generateRSA lib"
    | (ecdsa) "alg = ECDSA" "gen = generateECDSA lib"
    | (ed25519) "alg = ED25519" "gen = generateED25519 lib"
    using keyGenerators_cases [OF assms(1)] by blast
  then have "alg \<in> {RSA, ECDSA, ED25519}
    \<and> parsePrivateKeyPEM lib (pem_EncodeToMemory lib blk) = Inr (key, alg)
    \<and> (\<exists>pub. privateKeyToPublicKey lib key = Inr pub)"
  proof cases
    case rsa
    with assms(2) obtain k where key: "key = Ptr_rsa_PrivateKey k"
      using generateRSA_key by blast
    have blk: "blk = \<lparr>Type = PreamblePrivateKeyRSA, Headers = [],
                      Bytes = x509_MarshalPKCS1PrivateKey lib k\<rparr>"
      using assms(3) by (simp add: privateKeyBlock_def key)
    have parser: "keyParsers lib (Type blk) = Some (parseRSA lib)"
      by (simp add: blk keyParsers_def PreamblePrivateKeyRSA_def PreamblePrivateKeyEC_def
                    PreamblePrivateKeyPKCS8_def)
    have parsed: "parseRSA lib (Bytes blk) = Inr key"
      using assms(6) by (simp add: blk key parseRSA_def)
    have "parsePrivateKeyPEM lib (pem_EncodeToMemory lib blk) = Inr (key, alg)"
      using parsePrivateKeyPEM_block [OF assms(4) assms(5) parser parsed]
      by (simp add: key rsa(1))
    then show ?thesis
      by (simp add: rsa(1) key privateKeyToPublicKey_def)
  next
    case ecdsa
    with assms(2) obtain k where key: "key = Ptr_ecdsa_PrivateKey k"
      using generateECDSA_key by blast
    obtain keyBytes where der: "x509_MarshalECPrivateKey lib k = Inr keyBytes"
      and blk: "blk = \<lparr>Type = PreamblePrivateKeyEC, Headers = [], Bytes = keyBytes\<rparr>"
      using assms(3) by (auto simp: privateKeyBlock_def key split: sum.splits)
    have parser: "keyParsers lib (Type blk) = Some (parseEC lib)"
      by (simp add: blk keyParsers_def PreamblePrivateKeyRSA_def PreamblePrivateKeyEC_def
                    PreamblePrivateKeyPKCS8_def)
    have parsed: "parseEC lib (Bytes blk) = Inr key"
      using assms(6) by (simp add: blk key der parseEC_def)
    have "parsePrivateKeyPEM lib (pem_EncodeToMemory lib blk) = Inr (key, alg)"
      using parsePrivateKeyPEM_block [OF assms(4) assms(5) parser parsed]
      by (simp add: key ecdsa(1))
    then show ?thesis
      by (simp add: ecdsa(1) key privateKeyToPublicKey_def)
  next
    case ed25519
    with assms(2) obtain k where key: "key = Val_ed25519_PrivateKey k"
      using generateED25519_key by blast
    obtain keyBytes where
      der: "x509_MarshalPKCS8PrivateKey lib (Val_ed25519_PrivateKey k) = Inr keyBytes"
      and blk: "blk = \<lparr>Type = PreamblePrivateKeyPKCS8, Headers = [], Bytes = keyBytes\<rparr>"
      using assms(3) by (auto simp: privateKeyBlock_def key split: sum.splits)
    have parser: "keyParsers lib (Type blk) = Some (parsePKCS8 lib)"
      by (simp add: blk keyParsers_def PreamblePrivateKeyRSA_def PreamblePrivateKeyEC_def
                    PreamblePrivateKeyPKCS8_def)
    have parsed: "parsePKCS8 lib (Bytes blk) = Inr key"
      using assms(6) by (simp add: blk key der parsePKCS8_def)
    have "parsePrivateKeyPEM lib (pem_EncodeToMemory lib blk) = Inr (key, alg)"
      using parsePrivateKeyPEM_block [OF assms(4) assms(5) parser parsed]
      by (simp add: key ed25519(1))
    then show ?thesis
      by (simp add: ed25519(1) key privateKeyToPublicKey_def)
  qed
  with export show ?thesis by simp
qed

lemma sample_pem_fields:
  "pem_Decode sample_env = sample_pem_Decode"
  "pem_EncodeToMemory sample_env = sample_pem_Encode"
  "PEMBlockToPEMPreamble sample_env = sample_PEMBlockToPEMPreamble"
  by (simp_all add: sample_env_def)

lemmas tag_defs =
  RSA_def ECDSA_def ED25519_def P224_def P256_def P384_def P521_def
  PreamblePrivateKeyRSA_def PreamblePrivateKeyEC_def PreamblePrivateKeyPKCS8_def
  PreamblePublicKey_def

lemma keyGenerators_registered:
  "keyGenerators lib RSA = Some (generateRSA lib)"
  "keyGenerators lib ECDSA = Some (generateECDSA lib)"
  "keyGenerators lib ED25519 = Some (generateED25519 lib)"
  by (simp_all add: keyGenerators_def RSA_def ECDSA_def ED25519_def)

text \<open>
  C3. Each of the three algorithm tags RSA, ECDSA and ED25519 has a generator in
  \<open>keyGenerators\<close>. For each of the tags: a key that the generator of the tag returns is
  exported to PEM, and \<open>parsePrivateKeyPEM\<close> of that PEM returns the same tag and the same
  key; deriving the public key succeeds, and the public key derived from the parsed key is
  the one derived before the export. The libraries are taken to round-trip at this key:
  \<open>pem.Decode\<close> gives back the block that \<open>pem.EncodeToMemory\<close> encoded, the label
  registry maps the block to its label, and the parsing function of \<open>crypto/x509\<close> gives
  back the key that the marshalling function encoded.
\<close>

theorem private_key_pem_roundtrip:
  "keyGenerators lib RSA = Some (generateRSA lib)
   \<and> keyGenerators lib ECDSA = Some (generateECDSA lib)
   \<and> keyGenerators lib ED25519 = Some (generateED25519 lib)
   \<and> (alg \<in> {RSA, ECDSA, ED25519} \<longrightarrow>
        (\<exists>gen. keyGenerators lib alg = Some gen
           \<and> (gen d rnd = Return (Inr key) \<longrightarrow>
               privateKeyBlock lib key = Inr blk \<longrightarrow>
               fst (pem_Decode lib (pem_EncodeToMemory lib blk)) = Some blk \<longrightarrow>
               PEMBlockToPEMPreamble lib blk = Inr (Type blk) \<longrightarrow>
               x509_roundtrip lib key \<longrightarrow>
                 exportPrivateKeyPEM lib key = Inr (pem_EncodeToMemory lib blk)
                 \<and> parsePrivateKeyPEM lib (pem_EncodeToMemory lib blk) = Inr (key, alg)
                 \<and> (\<exists>pub. privateKeyToPublicKey lib key = Inr pub
                       \<and> map_sum id (\<lambda>(key', alg'). (alg', privateKeyToPublicKey lib key'))
                            (parsePrivateKeyPEM lib (pem_EncodeToMemory lib blk))
                          = Inr (alg, Inr pub)))))"
proof -
  have trip: "exportPrivateKeyPEM lib key = Inr (pem_EncodeToMemory lib blk)
      \<and> parsePrivateKeyPEM lib (pem_EncodeToMemory lib blk) = Inr (key, alg)
      \<and> (\<exists>pub. privateKeyToPublicKey lib key = Inr pub
            \<and> map_sum id (\<lambda>(key', alg'). (alg', privateKeyToPublicKey lib key'))
                 (parsePrivateKeyPEM lib (pem_EncodeToMemory lib blk))
               = Inr (alg, Inr pub))"
    if "keyGenerators lib alg = Some gen" "gen d rnd = Return (Inr key)"
      "privateKeyBlock lib key = Inr blk"
      "fst (pem_Decode lib (pem_EncodeToMemory lib blk)) = Some blk"
      "PEMBlockToPEMPreamble lib blk = Inr (Type blk)" "x509_roundtrip lib key" for gen
  proof -
    from generated_key_roundtrip [OF that]
    have e: "exportPrivateKeyPEM lib key = Inr (pem_EncodeToMemory lib blk)"
      and p: "parsePrivateKeyPEM lib (pem_EncodeToMemory lib blk) = Inr (key, alg)"
      and "\<exists>pub. privateKeyToPublicKey lib key = Inr pub"
      by simp_all
    then obtain pub where "privateKeyToPublicKey lib key = Inr pub" by blast
    with e p show ?thesis by simp
  qed
  have "\<exists>gen. keyGenerators lib alg = Some gen" if "alg \<in> {RSA, ECDSA, ED25519}"
    using that keyGenerators_registered [of lib] by auto
  with trip show ?thesis
    using keyGenerators_registered [of lib] by blast
qed

theorem private_key_pem_roundtrip_witness:
  "keyGenerators sample_env RSA = Some (generateRSA sample_env)
   \<and> generateRSA sample_env (sample_data P256) [] = Return (Inr (Ptr_rsa_PrivateKey sample_rsa_key))
   \<and> parsePrivateKeyPEM sample_env
        (sample_pem_Encode \<lparr>Type = ''RSA PRIVATE KEY'', Headers = [], Bytes = ''pkcs1 rsa''\<rparr>)
       = Inr (Ptr_rsa_PrivateKey sample_rsa_key, RSA)
   \<and> keyGenerators sample_env ECDSA = Some (generateECDSA sample_env)
   \<and> generateECDSA sample_env (sample_data P521) []
       = Return (Inr (Ptr_ecdsa_PrivateKey (sample_ecdsa_key elliptic_P521)))
   \<and> parsePrivateKeyPEM sample_env
        (sample_pem_Encode \<lparr>Type = ''EC PRIVATE KEY'', Headers = [], Bytes = ''sec1 P-521''\<rparr>)
       = Inr (Ptr_ecdsa_PrivateKey (sample_ecdsa_key elliptic_P521), ECDSA)
   \<and> keyGenerators sample_env ED25519 = Some (generateED25519 sample_env)
   \<and> generateED25519 sample_env (sample_data P256) []
       = Return (Inr (Val_ed25519_PrivateKey sample_ed25519_key))
   \<and> parsePrivateKeyPEM sample_env
        (sample_pem_Encode
           \<lparr>Type = ''PRIVATE KEY'', Headers = [], Bytes = ''pkcs8 ed25519 seedpubl''\<rparr>)
       = Inr (Val_ed25519_PrivateKey sample_ed25519_key, ED25519)
   \<and> privateKeyToPublicKey sample_env (Val_ed25519_PrivateKey sample_ed25519_key)
       = Inr (ed25519_PublicKey ''publ'')"
proof -
  have rsa_reg: "keyGenerators sample_env RSA = Some (generateRSA sample_env)"
    and rsa_gen: "generateRSA sample_env (sample_data P256) []
       = Return (Inr (Ptr_rsa_PrivateKey sample_rsa_key))"
    and rsa: "parsePrivateKeyPEM sample_env
        (sample_pem_Encode \<lparr>Type = ''RSA PRIVATE KEY'', Headers = [], Bytes = ''pkcs1 rsa''\<rparr>)
       = Inr (Ptr_rsa_PrivateKey sample_rsa_key, RSA)"
  proof -
    let ?blk = "\<lparr>Type = ''RSA PRIVATE KEY'', Headers = [], Bytes = ''pkcs1 rsa''\<rparr>"
    let ?key = "Ptr_rsa_PrivateKey sample_rsa_key"
    note T = private_key_pem_roundtrip
               [of sample_env RSA "sample_data P256" "[]" ?key ?blk]
    from T show reg: "keyGenerators sample_env RSA = Some (generateRSA sample_env)"
      by blast
    from T obtain gen where g: "keyGenerators sample_env RSA = Some gen"
      and imp: "gen (sample_data P256) [] = Return (Inr ?key) \<longrightarrow>
         privateKeyBlock sample_env ?key = Inr ?blk \<longrightarrow>
         fst (pem_Decode sample_env (pem_EncodeToMemory sample_env ?blk)) = Some ?blk \<longrightarrow>
         PEMBlockToPEMPreamble sample_env ?blk = Inr (Type ?blk) \<longrightarrow>
         x509_roundtrip sample_env ?key \<longrightarrow>
         parsePrivateKeyPEM sample_env (pem_EncodeToMemory sample_env ?blk)
           = Inr (?key, RSA)"
      by auto
    from reg g have gen: "gen = generateRSA sample_env" by simp
    show h2: "generateRSA sample_env (sample_data P256) [] = Return (Inr ?key)"
      by (simp add: generateRSA_def Get_def sample_data_def sample_env_def)
    have h3: "privateKeyBlock sample_env ?key = Inr ?blk"
      by (simp add: privateKeyBlock_def sample_env_def tag_defs)
    have h4: "fst (pem_Decode sample_env (pem_EncodeToMemory sample_env ?blk)) = Some ?blk"
      by (simp add: sample_pem_fields sample_pem_Encode_def sample_pem_Decode_def)
    have h5: "PEMBlockToPEMPreamble sample_env ?blk = Inr (Type ?blk)"
      by (simp add: sample_pem_fields sample_PEMBlockToPEMPreamble_def tag_defs)
    have h6: "x509_roundtrip sample_env ?key"
      by (simp add: sample_env_def)
    show "parsePrivateKeyPEM sample_env (sample_pem_Encode ?blk) = Inr (?key, RSA)"
      using imp h2 h3 h4 h5 h6 by (simp add: gen sample_pem_fields)
  qed
  have ec_reg: "keyGenerators sample_env ECDSA = Some (generateECDSA sample_env)"
    and ec_gen: "generateECDSA sample_env (sample_data P521) []
       = Return (Inr (Ptr_ecdsa_PrivateKey (sample_ecdsa_key elliptic_P521)))"
    and ec: "parsePrivateKeyPEM sample_env
        (sample_pem_Encode \<lparr>Type = ''EC PRIVATE KEY'', Headers = [], Bytes = ''sec1 P-521''\<rparr>)
       = Inr (Ptr_ecdsa_PrivateKey (sample_ecdsa_key elliptic_P521), ECDSA)"
  proof -
    let ?blk = "\<lparr>Type = ''EC PRIVATE KEY'', Headers = [], Bytes = ''sec1 P-521''\<rparr>"
    let ?key = "Ptr_ecdsa_PrivateKey (sample_ecdsa_key elliptic_P521)"
    note T = private_key_pem_roundtrip
               [of sample_env ECDSA "sample_data P521" "[]" ?key ?blk]
    from T show reg: "keyGenerators sample_env ECDSA = Some (generateECDSA sample_env)"
      by blast
    from T obtain gen where g: "keyGenerators sample_env ECDSA = Some gen"
      and imp: "gen (sample_data P521) [] = Return (Inr ?key) \<longrightarrow>
         privateKeyBlock sample_env ?key = Inr ?blk \<longrightarrow>
         fst (pem_Decode sample_env (pem_EncodeToMemory sample_env ?blk)) = Some ?blk \<longrightarrow>
         PEMBlockToPEMPreamble sample_env ?blk = Inr (Type ?blk) \<longrightarrow>
         x509_roundtrip sample_env ?key \<longrightarrow>
         parsePrivateKeyPEM sample_env (pem_EncodeToMemory sample_env ?blk)
           = Inr (?key, ECDSA)"
      by auto
    from reg g have gen: "gen = generateECDSA sample_env" by simp
    show h2: "generateECDSA sample_env (sample_data P521) [] = Return (Inr ?key)"
      by (simp add: generateECDSA_def Get_def sample_data_def sample_env_def tag_defs)
    have h3: "privateKeyBlock sample_env ?key = Inr ?blk"
      by (simp add: privateKeyBlock_def sample_env_def sample_ecdsa_key_def curve_name_def
                    tag_defs)
    have h4: "fst (pem_Decode sample_env (pem_EncodeToMemory sample_env ?blk)) = Some ?blk"
      by (simp add: sample_pem_fields sample_pem_Encode_def sample_pem_Decode_def)
    have h5: "PEMBlockToPEMPreamble sample_env ?blk = Inr (Type ?blk)"
      by (simp add: sample_pem_fields sample_PEMBlockToPEMPreamble_def tag_defs)
    have h6: "x509_roundtrip sample_env ?key"
      by (simp add: sample_env_def sample_ecdsa_key_def curve_name_def curve_of_name_def)
    show "parsePrivateKeyPEM sample_env (sample_pem_Encode ?blk) = Inr (?key, ECDSA)"
      using imp h2 h3 h4 h5 h6 by (simp add: gen sample_pem_fields)
  qed
  have ed_reg: "keyGenerators sample_env ED25519 = Some (generateED25519 sample_env)"
    and ed_gen: "generateED25519 sample_env (sample_data P256) []
       = Return (Inr (Val_ed25519_PrivateKey sample_ed25519_key))"
    and ed: "parsePrivateKeyPEM sample_env
        (sample_pem_Encode
           \<lparr>Type = ''PRIVATE KEY'', Headers = [], Bytes = ''pkcs8 ed25519 seedpubl''\<rparr>)
       = Inr (Val_ed25519_PrivateKey sample_ed25519_key, ED25519)"
  proof -
    let ?blk = "\<lparr>Type = ''PRIVATE KEY'', Headers = [], Bytes = ''pkcs8 ed25519 seedpubl''\<rparr>"
    let ?key = "Val_ed25519_PrivateKey sample_ed25519_key"
    note T = private_key_pem_roundtrip
               [of sample_env ED25519 "sample_data P256" "[]" ?key ?blk]
    from T show reg: "keyGenerators sample_env ED25519 = Some (generateED25519 sample_env)"
      by blast
    from T obtain gen where g: "keyGenerators sample_env ED25519 = Some gen"
      and imp: "gen (sample_data P256) [] = Return (Inr ?key) \<longrightarrow>
         privateKeyBlock sample_env ?key = Inr ?blk \<longrightarrow>
         fst (pem_Decode sample_env (pem_EncodeToMemory sample_env ?blk)) = Some ?blk \<longrightarrow>
         PEMBlockToPEMPreamble sample_env ?blk = Inr (Type ?blk) \<longrightarrow>
         x509_roundtrip sample_env ?key \<longrightarrow>
         parsePrivateKeyPEM sample_env (pem_EncodeToMemory sample_env ?blk)
           = Inr (?key, ED25519)"
      by auto
    from reg g have gen: "gen = generateED25519 sample_env" by simp
    show h2: "generateED25519 sample_env (sample_data P256) [] = Return (Inr ?key)"
      by (simp add: generateED25519_def sample_env_def)
    have h3: "privateKeyBlock sample_env ?key = Inr ?blk"
      by (simp add: privateKeyBlock_def sample_env_def sample_MarshalPKCS8_def
                    sample_ed25519_key_def tag_defs)
    have h4: "fst (pem_Decode sample_env (pem_EncodeToMemory sample_env ?blk)) = Some ?blk"
      by (simp add: sample_pem_fields sample_pem_Encode_def sample_pem_Decode_def)
    have h5: "PEMBlockToPEMPreamble sample_env ?blk = Inr (Type ?blk)"
      by (simp add: sample_pem_fields sample_PEMBlockToPEMPreamble_def tag_defs)
    have h6: "x509_roundtrip sample_env ?key"
      by (simp add: sample_env_def sample_MarshalPKCS8_def sample_ParsePKCS8_def
                    sample_ed25519_key_def)
    show "parsePrivateKeyPEM sample_env (sample_pem_Encode ?blk) = Inr (?key, ED25519)"
      using imp h2 h3 h4 h5 h6 by (simp add: gen sample_pem_fields)
  qed
  have pub: "privateKeyToPublicKey sample_env (Val_ed25519_PrivateKey sample_ed25519_key)
       = Inr (ed25519_PublicKey ''publ'')"
    by (simp add: privateKeyToPublicKey_def sample_env_def sample_ed25519_key_def)
  show ?thesis
    using rsa_reg rsa_gen rsa ec_reg ec_gen ec ed_reg ed_gen ed pub by simp
qed


subsection \<open>The expiry policy\<close>

text \<open>
  C1. \<open>isCurrent issuedAt spec asOf\<close> holds if and only if \<open>asOf\<close> is before the issuance
  time plus the validity hours less the early renewal hours, whatever the two numbers of
  hours are. With 10 hours of validity and 2 of early renewal the certificate is current at
  the issuance time and 7 hours later, and not 9 hours later; in the steps of the test
  \<open>TestAccSelfSignedCertRecreatesAfterExpired\<close> (issued at 2019-06-14T12:00:00Z, read at
  12:00, 19:00 and 21:00) only the last read issues a new certificate.
\<close>

theorem isCurrent_iff_before_deadline:
  "isCurrent issuedAt spec asOf
     = (asOf < issuedAt + hours (ValidityHours spec) - hours (EarlyRenewalHours spec))
   \<and> isCurrent T \<lparr>ValidityHours = 10, EarlyRenewalHours = 2\<rparr> T
   \<and> isCurrent T \<lparr>ValidityHours = 10, EarlyRenewalHours = 2\<rparr> (T + hours 7)
   \<and> \<not> isCurrent T \<lparr>ValidityHours = 10, EarlyRenewalHours = 2\<rparr> (T + hours 9)
   \<and> map Serial
        (applySteps None
           [(1560513600, \<lparr>ValidityHours = 10, EarlyRenewalHours = 2\<rparr>),
            (1560513600, \<lparr>ValidityHours = 10, EarlyRenewalHours = 2\<rparr>),
            (1560513600 + hours 7, \<lparr>ValidityHours = 10, EarlyRenewalHours = 2\<rparr>),
            (1560513600 + hours 9, \<lparr>ValidityHours = 10, EarlyRenewalHours = 2\<rparr>)])
       = [0, 0, 0, 1]"
  by (simp add: isCurrent_def Deadline_def hours_def readCertificate_def issueAt_def Let_def)

subsection \<open>Raising the early renewal hours\<close>

text \<open>
  C2. A read of an issued certificate with another number of early renewal hours is decided
  against the stored issuance time: the certificate is regenerated if and only if the time
  of the read is at or after the stored issuance time plus the validity hours less the new
  early renewal hours, and a certificate that is kept keeps its issuance time. Issued at
  \<open>T\<close> with 10 hours of validity and read 4 hours later, it is kept with 3 early renewal
  hours and regenerated with 9; in the steps of the test
  \<open>TestAccSelfSignedCertNotRecreatedForEarlyRenewalUpdateInFuture\<close> only the last read
  issues a new certificate.
\<close>

theorem readCertificate_regenerates_iff:
  "fst (readCertificate cert (spec\<lparr>EarlyRenewalHours := E'\<rparr>) asOf)
     = (NotBefore cert + hours (ValidityHours spec) - hours E' \<le> asOf)
   \<and> NotBefore (snd (readCertificate cert (spec\<lparr>EarlyRenewalHours := E'\<rparr>) asOf))
     = (if NotBefore cert + hours (ValidityHours spec) - hours E' \<le> asOf then asOf
        else NotBefore cert)
   \<and> \<not> fst (readCertificate (issueAt \<lparr>ValidityHours = 10, EarlyRenewalHours = 2\<rparr> n T)
               \<lparr>ValidityHours = 10, EarlyRenewalHours = 3\<rparr> (T + hours 4))
   \<and> fst (readCertificate (issueAt \<lparr>ValidityHours = 10, EarlyRenewalHours = 2\<rparr> n T)
             \<lparr>ValidityHours = 10, EarlyRenewalHours = 9\<rparr> (T + hours 4))
   \<and> map Serial
        (applySteps None
           [(1560513600, \<lparr>ValidityHours = 10, EarlyRenewalHours = 2\<rparr>),
            (1560513600, \<lparr>ValidityHours = 10, EarlyRenewalHours = 3\<rparr>),
            (1560513600 + hours 4, \<lparr>ValidityHours = 10, EarlyRenewalHours = 3\<rparr>),
            (1560513600 + hours 4, \<lparr>ValidityHours = 10, EarlyRenewalHours = 9\<rparr>)])
       = [0, 0, 0, 1]"
  by (simp add: isCurrent_def Deadline_def hours_def readCertificate_def issueAt_def Let_def)

subsection \<open>Validation before issuance\<close>

text \<open>
  C7. When the validity hours or the early renewal hours are negative, issuance returns a
  validation error whatever the library, the signing function, the key and the time are:
  the result is fixed by the spec alone, so neither the key is parsed nor anything signed.
  The error has, for each negative field, the message that names the field, the bound
  "at least (0)" and the value.
\<close>

theorem issueSelfSigned_rejects_negative_hours:
  assumes "ValidityHours spec < 0 \<or> EarlyRenewalHours spec < 0"
  shows "issueSelfSigned lib sign spec keyPEM now = Inl (ValidationError (validateSpec spec))
    \<and> (ValidityHours spec < 0 \<longrightarrow>
         ''expected validity_period_hours to be at least (0), got ''
           @ fmt_d (ValidityHours spec) \<in> set (validateSpec spec))
    \<and> (EarlyRenewalHours spec < 0 \<longrightarrow>
         ''expected early_renewal_hours to be at least (0), got ''
           @ fmt_d (EarlyRenewalHours spec) \<in> set (validateSpec spec))"
  using assms
  by (auto simp: issueSelfSigned_def validateSpec_def intAtLeast_def fmt_d_0
           split: list.splits)

theorem issueSelfSigned_rejects_negative_hours_witness:
  "issueSelfSigned sample_env (\<lambda>spec key now. Inr ''certificate'')
     \<lparr>ValidityHours = - 1, EarlyRenewalHours = 0\<rparr> ''does not matter'' 1560513600
     = Inl (ValidationError [''expected validity_period_hours to be at least (0), got -1''])
   \<and> issueSelfSigned sample_env (\<lambda>spec key now. Inr ''certificate'')
       \<lparr>ValidityHours = 20, EarlyRenewalHours = - 10\<rparr> ''does not matter'' 1560513600
     = Inl (ValidationError [''expected early_renewal_hours to be at least (0), got -10''])"
proof -
  have v1: "validateSpec \<lparr>ValidityHours = - 1, EarlyRenewalHours = 0\<rparr>
              = [''expected validity_period_hours to be at least (0), got -1'']"
    by (simp add: validateSpec_def intAtLeast_def fmt_d_def fmt_nat.simps)
  have v2: "validateSpec \<lparr>ValidityHours = 20, EarlyRenewalHours = - 10\<rparr>
              = [''expected early_renewal_hours to be at least (0), got -10'']"
    by (simp add: validateSpec_def intAtLeast_def fmt_d_def fmt_nat.simps)
  have h1: "ValidityHours \<lparr>ValidityHours = - 1, EarlyRenewalHours = 0\<rparr> < 0
            \<or> EarlyRenewalHours \<lparr>ValidityHours = - 1, EarlyRenewalHours = 0\<rparr> < 0"
    by simp
  have h2: "ValidityHours \<lparr>ValidityHours = 20, EarlyRenewalHours = - 10\<rparr> < 0
            \<or> EarlyRenewalHours \<lparr>ValidityHours = 20, EarlyRenewalHours = - 10\<rparr> < 0"
    by simp
  show ?thesis
    using issueSelfSigned_rejects_negative_hours [OF h1] v1
      issueSelfSigned_rejects_negative_hours [OF h2] v2
    by simp
qed


end
